theory Spec2Isabelle
  imports
    Main
    "HOL-Library.Sublist"
    "HOL-Library.Char_ord"
    "HOL-Library.List_Lexorder"
    "HOL-Library.Product_Lexorder"
begin

section \<open>The DAG module \<open>dags/raw_from_api_to_s3.py\<close>\<close>

text \<open>
  The module defines two functions, \<open>get_dates\<close> and
  \<open>get_and_transfer_api_data_to_s3\<close>, and a handful of module-level constants.
  Everything else is done by libraries: pendulum formats the timestamps, DuckDB runs the
  SQL script, Airflow hands over the context and stores the variables. The libraries are
  modelled as far as the module's behaviour depends on them: the formatting and the
  comparison of timestamps in full, the engine as a parameter that says which calls raise.
\<close>

subsection \<open>Timestamps\<close>

text \<open>
  A pendulum \<open>DateTime\<close> is a \<open>datetime.datetime\<close> with a time zone: the civil fields,
  the zone's name and the offset from UTC (in seconds) in force at that local time.
\<close>

record datetime =
  year :: nat
  month :: nat
  day :: nat
  hour :: nat
  minute :: nat
  second :: nat
  microsecond :: nat
  tz :: string
  utcoffset :: int

definition is_leap :: "nat \<Rightarrow> bool" where
  "is_leap y = (y mod 4 = 0 \<and> (y mod 100 \<noteq> 0 \<or> y mod 400 = 0))"

definition days_in_month :: "nat \<Rightarrow> nat \<Rightarrow> nat" where
  "days_in_month y m =
     (if m = 2 then (if is_leap y then 29 else 28)
      else if m = 4 \<or> m = 6 \<or> m = 9 \<or> m = 11 then 30 else 31)"

text \<open>What the constructor of \<open>datetime.datetime\<close> accepts (\<open>MINYEAR = 1\<close>, \<open>MAXYEAR = 9999\<close>).\<close>

definition valid_datetime :: "datetime \<Rightarrow> bool" where
  "valid_datetime d =
     (1 \<le> year d \<and> year d \<le> 9999 \<and> 1 \<le> month d \<and> month d \<le> 12 \<and>
      1 \<le> day d \<and> day d \<le> days_in_month (year d) (month d) \<and>
      hour d < 24 \<and> minute d < 60 \<and> second d < 60 \<and> microsecond d < 1000000 \<and>
      \<bar>utcoffset d\<bar> < 86400)"

text \<open>
  The proleptic Gregorian ordinal of a date (\<open>_ymd2ord\<close> of the standard library), needed
  to compare timestamps of different zones.
\<close>

definition days_before_year :: "nat \<Rightarrow> nat" where
  "days_before_year y = (y - 1) * 365 + (y - 1) div 4 - (y - 1) div 100 + (y - 1) div 400"

definition days_before_month :: "nat \<Rightarrow> nat \<Rightarrow> nat" where
  "days_before_month y m =
     [0, 0, 31, 59, 90, 120, 151, 181, 212, 243, 273, 304, 334] ! m
       + (if 2 < m \<and> is_leap y then 1 else 0)"

definition toordinal :: "datetime \<Rightarrow> nat" where
  "toordinal d = days_before_year (year d) + days_before_month (year d) (month d) + day d"

definition utc_microseconds :: "datetime \<Rightarrow> int" where
  "utc_microseconds d =
     ((int (toordinal d) * 86400
        + int (second d + minute d * 60 + hour d * 3600)) - utcoffset d) * 1000000
      + int (microsecond d)"

definition civil_fields :: "datetime \<Rightarrow> nat \<times> nat \<times> nat \<times> nat \<times> nat \<times> nat \<times> nat" where
  "civil_fields d = (year d, month d, day d, hour d, minute d, second d, microsecond d)"

text \<open>
  \<open>a < b\<close> on aware timestamps, as \<open>datetime._cmp\<close> decides it: two timestamps of the same
  zone, or of the same offset, are compared field by field; otherwise the instants are.
\<close>

definition dt_less :: "datetime \<Rightarrow> datetime \<Rightarrow> bool" where
  "dt_less a b =
     (if tz a = tz b \<or> utcoffset a = utcoffset b then civil_fields a < civil_fields b
      else utc_microseconds a < utc_microseconds b)"

definition dt_le :: "datetime \<Rightarrow> datetime \<Rightarrow> bool" where
  "dt_le a b = (\<not> dt_less b a)"

subsection \<open>Formatting: \<open>dt.format("YYYY-MM-DD")\<close>\<close>

text \<open>
  pendulum renders the token \<open>YYYY\<close> as \<open>f"{dt.year:d}"\<close>, the year as it is, without
  padding; \<open>MM\<close> as \<open>f"{dt.month:02d}"\<close>, \<open>DD\<close> as \<open>f"{dt.day:02d}"\<close>; and it copies the
  dashes. A year below 1000 therefore gives fewer than four digits.
\<close>

definition digit_char :: "nat \<Rightarrow> char" where
  "digit_char d = char_of (48 + d)"

fun str_nat :: "nat \<Rightarrow> string" where
  "str_nat n = (if n < 10 then [digit_char n] else str_nat (n div 10) @ [digit_char (n mod 10)])"

declare str_nat.simps [simp del]

definition zero_pad :: "nat \<Rightarrow> nat \<Rightarrow> string" where
  "zero_pad w n = replicate (w - length (str_nat n)) CHR ''0'' @ str_nat n"

definition format_YYYY_MM_DD :: "datetime \<Rightarrow> string" where
  "format_YYYY_MM_DD d =
     str_nat (year d) @ ''-'' @ zero_pad 2 (month d) @ ''-'' @ zero_pad 2 (day d)"

text \<open>The shape \<open>YYYY-MM-DD\<close>: ten characters, digits around two dashes.\<close>

definition is_digit :: "char \<Rightarrow> bool" where
  "is_digit c = (CHR ''0'' \<le> c \<and> c \<le> CHR ''9'')"

fun is_YYYY_MM_DD :: "string \<Rightarrow> bool" where
  "is_YYYY_MM_DD [y1, y2, y3, y4, s1, m1, m2, s2, d1, d2] =
     (is_digit y1 \<and> is_digit y2 \<and> is_digit y3 \<and> is_digit y4 \<and> s1 = CHR ''-'' \<and>
      is_digit m1 \<and> is_digit m2 \<and> s2 = CHR ''-'' \<and> is_digit d1 \<and> is_digit d2)"
| "is_YYYY_MM_DD _ = False"

subsection \<open>\<open>get_dates\<close>\<close>

text \<open>
  The context is the keyword dictionary Airflow passes to the callable. Indexing it with a
  key it does not hold raises \<open>KeyError\<close>. The engine's exceptions are carried as they
  are, by their message.
\<close>

datatype error = KeyError string | EngineError string

type_synonym kwargs = "string \<rightharpoonup> datetime"

definition getitem :: "kwargs \<Rightarrow> string \<Rightarrow> error + datetime" where
  "getitem ctx k = (case ctx k of None \<Rightarrow> Inl (KeyError k) | Some v \<Rightarrow> Inr v)"

definition get_dates :: "kwargs \<Rightarrow> error + (string \<times> string)" where
  "get_dates ctx =
     (case getitem ctx ''data_interval_start'' of
        Inl e \<Rightarrow> Inl e
      | Inr a \<Rightarrow>
          (let start_date = format_YYYY_MM_DD a in
           case getitem ctx ''data_interval_end'' of
             Inl e \<Rightarrow> Inl e
           | Inr b \<Rightarrow>
               (let end_date = format_YYYY_MM_DD b in
                Inr (start_date, end_date))))"

subsection \<open>Module constants and the variables read at import\<close>

definition LAYER :: string where
  "LAYER = ''raw''"

definition SOURCE :: string where
  "SOURCE = ''earthquake''"

text \<open>
  \<open>args["start_date"]\<close>, that is \<open>pendulum.datetime(2025, 10, 20, tz="Europe/Moscow")\<close>: with
  \<open>catchup\<close> the scheduler makes up the firings since this date, and none before it.
\<close>

definition args_start_date :: datetime where
  "args_start_date =
     \<lparr>year = 2025, month = 10, day = 20, hour = 0, minute = 0, second = 0, microsecond = 0,
      tz = ''Europe/Moscow'', utcoffset = 10800\<rparr>"

text \<open>
  What the module and the task do to the outside world, in the order they do it: reads of
  the Airflow variable store, log lines, and the three calls on DuckDB.
\<close>

datatype event =
    VariableGet string
  | LogInfo string
  | DuckdbConnect
  | ConSql string
  | ConClose

type_synonym variables = "string \<rightharpoonup> string"

text \<open>
  \<open>Variable.get(key)\<close> without a default raises
  \<open>KeyError(f"Variable {key} does not exist")\<close> for a variable that is not set.
\<close>

definition Variable_get :: "variables \<Rightarrow> string \<Rightarrow> error + string" where
  "Variable_get vars k =
     (case vars k of
        None \<Rightarrow> Inl (KeyError (''Variable '' @ k @ '' does not exist''))
      | Some v \<Rightarrow> Inr v)"

record module_globals =
  ACCESS_KEY :: string
  SECRET_KEY :: string

text \<open>
  The two assignments \<open>ACCESS_KEY = Variable.get("access_key")\<close> and
  \<open>SECRET_KEY = Variable.get("secret_key")\<close> are statements of the module body: they run
  when the module is imported, and the functions below see their results as globals.
\<close>

definition load_module :: "variables \<Rightarrow> event list \<times> (error + module_globals)" where
  "load_module vars =
     (case Variable_get vars ''access_key'' of
        Inl e \<Rightarrow> ([VariableGet ''access_key''], Inl e)
      | Inr ak \<Rightarrow>
          (case Variable_get vars ''secret_key'' of
             Inl e \<Rightarrow> ([VariableGet ''access_key'', VariableGet ''secret_key''], Inl e)
           | Inr sk \<Rightarrow>
               ([VariableGet ''access_key'', VariableGet ''secret_key''],
                Inr \<lparr>ACCESS_KEY = ak, SECRET_KEY = sk\<rparr>)))"

subsection \<open>The SQL script\<close>

text \<open>
  The script is one f-string. Its text is kept as it is, line by line, with the
  indentation and the trailing blanks of the source; the Cyrillic comments and the two
  symbols of the log lines are given by their UTF-8 bytes.
\<close>

definition utf8 :: "nat list \<Rightarrow> string" where
  "utf8 bs = map char_of bs"

definition nl :: string where
  "nl = [CHR 0x0A]"

text \<open>The comment reads: time zone setting.\<close>

definition comment_timezone :: string where
  "comment_timezone =
     utf8 [0xD0, 0x9D, 0xD0, 0xB0, 0xD1, 0x81, 0xD1, 0x82, 0xD1, 0x80, 0xD0, 0xBE,
           0xD0, 0xB9, 0xD0, 0xBA, 0xD0, 0xB0, 0x20, 0xD1, 0x87, 0xD0, 0xB0, 0xD1,
           0x81, 0xD0, 0xBE, 0xD0, 0xB2, 0xD0, 0xBE, 0xD0, 0xB3, 0xD0, 0xBE, 0x20,
           0xD0, 0xBF, 0xD0, 0xBE, 0xD1, 0x8F, 0xD1, 0x81, 0xD0, 0xB0]"

text \<open>The comment reads: install the extension for HTTP and S3.\<close>

definition comment_httpfs :: string where
  "comment_httpfs =
     utf8 [0xD0, 0xA3, 0xD1, 0x81, 0xD1, 0x82, 0xD0, 0xB0, 0xD0, 0xBD, 0xD0, 0xB0,
           0xD0, 0xB2, 0xD0, 0xBB, 0xD0, 0xB8, 0xD0, 0xB2, 0xD0, 0xB0, 0xD0, 0xB5,
           0xD0, 0xBC, 0x20, 0xD1, 0x80, 0xD0, 0xB0, 0xD1, 0x81, 0xD1, 0x88, 0xD0,
           0xB8, 0xD1, 0x80, 0xD0, 0xB5, 0xD0, 0xBD, 0xD0, 0xB8, 0xD0, 0xB5, 0x20,
           0xD0, 0xB4, 0xD0, 0xBB, 0xD1, 0x8F, 0x20, 0xD1, 0x80, 0xD0, 0xB0, 0xD0,
           0xB1, 0xD0, 0xBE, 0xD1, 0x82, 0xD1, 0x8B, 0x20, 0xD1, 0x81, 0x20, 0x48,
           0x54, 0x54, 0x50, 0x20, 0xD0, 0xB8, 0x20, 0x53, 0x33]"

text \<open>The comment reads: connection settings for MinIO (S3-compatible storage).\<close>

definition comment_minio :: string where
  "comment_minio =
     utf8 [0xD0, 0x9D, 0xD0, 0xB0, 0xD1, 0x81, 0xD1, 0x82, 0xD1, 0x80, 0xD0, 0xBE,
           0xD0, 0xB9, 0xD0, 0xBA, 0xD0, 0xB0, 0x20, 0xD0, 0xBF, 0xD0, 0xBE, 0xD0,
           0xB4, 0xD0, 0xBA, 0xD0, 0xBB, 0xD1, 0x8E, 0xD1, 0x87, 0xD0, 0xB5, 0xD0,
           0xBD, 0xD0, 0xB8, 0xD1, 0x8F, 0x20, 0xD0, 0xBA, 0x20, 0x4D, 0x69, 0x6E,
           0x49, 0x4F, 0x20, 0x28, 0x53, 0x33, 0x2D, 0xD1, 0x81, 0xD0, 0xBE, 0xD0,
           0xB2, 0xD0, 0xBC, 0xD0, 0xB5, 0xD1, 0x81, 0xD1, 0x82, 0xD0, 0xB8, 0xD0,
           0xBC, 0xD0, 0xBE, 0xD0, 0xB5, 0x20, 0xD1, 0x85, 0xD1, 0x80, 0xD0, 0xB0,
           0xD0, 0xBD, 0xD0, 0xB8, 0xD0, 0xBB, 0xD0, 0xB8, 0xD1, 0x89, 0xD0, 0xB5,
           0x29]"

text \<open>The comment reads: copy the data from the API to S3.\<close>

definition comment_copy :: string where
  "comment_copy =
     utf8 [0xD0, 0x9A, 0xD0, 0xBE, 0xD0, 0xBF, 0xD0, 0xB8, 0xD1, 0x80, 0xD1, 0x83,
           0xD0, 0xB5, 0xD0, 0xBC, 0x20, 0xD0, 0xB4, 0xD0, 0xB0, 0xD0, 0xBD, 0xD0,
           0xBD, 0xD1, 0x8B, 0xD0, 0xB5, 0x20, 0xD0, 0xB8, 0xD0, 0xB7, 0x20, 0x41,
           0x50, 0x49, 0x20, 0xD0, 0xB2, 0x20, 0x53, 0x33]"

text \<open>The comment reads: read the CSV data from the USGS API for the given period.\<close>

definition comment_read :: string where
  "comment_read =
     utf8 [0xD0, 0xA7, 0xD0, 0xB8, 0xD1, 0x82, 0xD0, 0xB0, 0xD0, 0xB5, 0xD0, 0xBC,
           0x20, 0x43, 0x53, 0x56, 0x20, 0xD0, 0xB4, 0xD0, 0xB0, 0xD0, 0xBD, 0xD0,
           0xBD, 0xD1, 0x8B, 0xD0, 0xB5, 0x20, 0xD0, 0xB8, 0xD0, 0xB7, 0x20, 0x55,
           0x53, 0x47, 0x53, 0x20, 0x41, 0x50, 0x49, 0x20, 0xD0, 0xB7, 0xD0, 0xB0,
           0x20, 0xD1, 0x83, 0xD0, 0xBA, 0xD0, 0xB0, 0xD0, 0xB7, 0xD0, 0xB0, 0xD0,
           0xBD, 0xD0, 0xBD, 0xD1, 0x8B, 0xD0, 0xB9, 0x20, 0xD0, 0xBF, 0xD0, 0xB5,
           0xD1, 0x80, 0xD0, 0xB8, 0xD0, 0xBE, 0xD0, 0xB4]"

text \<open>The comment reads: save to MinIO in Parquet format.\<close>

definition comment_save :: string where
  "comment_save =
     utf8 [0xD0, 0xA1, 0xD0, 0xBE, 0xD1, 0x85, 0xD1, 0x80, 0xD0, 0xB0, 0xD0, 0xBD,
           0xD1, 0x8F, 0xD0, 0xB5, 0xD0, 0xBC, 0x20, 0xD0, 0xB2, 0x20, 0x4D, 0x69,
           0x6E, 0x49, 0x4F, 0x20, 0xD0, 0xB2, 0x20, 0xD1, 0x84, 0xD0, 0xBE, 0xD1,
           0x80, 0xD0, 0xBC, 0xD0, 0xB0, 0xD1, 0x82, 0xD0, 0xB5, 0x20, 0x50, 0x61,
           0x72, 0x71, 0x75, 0x65, 0x74]"

definition sql_settings :: "string \<Rightarrow> string \<Rightarrow> string" where
  "sql_settings access_key secret_key =
     nl @
     ''        -- '' @ comment_timezone @ nl @
     ''        SET TIMEZONE='UTC';'' @ nl @
     ''        '' @ nl @
     ''        -- '' @ comment_httpfs @ nl @
     ''        INSTALL httpfs;'' @ nl @
     ''        LOAD httpfs;'' @ nl @
     ''        '' @ nl @
     ''        -- '' @ comment_minio @ nl @
     ''        SET s3_url_style = 'path';           '' @ nl @
     ''        SET s3_endpoint = 'minio:9000';      '' @ nl @
     ''        SET s3_access_key_id = '' @ [CHR 0x27] @ access_key @ [CHR 0x27] @ '';     '' @ nl @
     ''        SET s3_secret_access_key = '' @ [CHR 0x27] @ secret_key @ [CHR 0x27] @ ''; '' @ nl @
     ''        SET s3_use_ssl = FALSE;             '' @ nl @
     nl"

definition sql_copy_head :: string where
  "sql_copy_head =
     ''        -- '' @ comment_copy @ nl @
     ''        COPY'' @ nl @
     ''        ('' @ nl @
     ''            SELECT'' @ nl @
     ''                *'' @ nl @
     ''            FROM'' @ nl @
     ''                -- '' @ comment_read @ nl @
     ''                read_csv_auto('' @ [CHR 0x27]"

definition source_url :: "string \<Rightarrow> string \<Rightarrow> string" where
  "source_url start_date end_date =
     ''https://earthquake.usgs.gov/fdsnws/event/1/query?format=csv&starttime='' @ start_date
       @ ''&endtime='' @ end_date"

definition sql_copy_mid :: string where
  "sql_copy_mid =
     [CHR 0x27] @ '') AS res'' @ nl @
     ''        ) '' @ nl @
     ''        -- '' @ comment_save @ nl @
     ''        TO '' @ [CHR 0x27]"

text \<open>
  The target of the \<open>COPY\<close>: the bucket \<open>prod\<close> and, in it, the object's key, made of the
  layer, the source and the start date.
\<close>

definition object_key :: "string \<Rightarrow> string \<Rightarrow> string \<Rightarrow> string" where
  "object_key layer source start_date =
     layer @ ''/'' @ source @ ''/'' @ start_date @ ''/'' @ start_date @ ''_00-00-00.gz.parquet''"

definition destination_path :: "string \<Rightarrow> string \<Rightarrow> string \<Rightarrow> string" where
  "destination_path layer source start_date = ''s3://prod/'' @ object_key layer source start_date"

definition sql_copy_tail :: string where
  "sql_copy_tail = [CHR 0x27] @ '';'' @ nl @ ''        ''"

definition sql_script :: "module_globals \<Rightarrow> string \<Rightarrow> string \<Rightarrow> string" where
  "sql_script g start_date end_date =
     sql_settings (ACCESS_KEY g) (SECRET_KEY g) @
     sql_copy_head @ source_url start_date end_date @
     sql_copy_mid @ destination_path LAYER SOURCE start_date @ sql_copy_tail"

subsection \<open>\<open>get_and_transfer_api_data_to_s3\<close>\<close>

definition start_message :: "string \<Rightarrow> string \<Rightarrow> string" where
  "start_message start_date end_date =
     utf8 [0xF0, 0x9F, 0x92, 0xBB] @ '' Start load for dates: '' @ start_date @ ''/'' @ end_date"

definition success_message :: "string \<Rightarrow> string" where
  "success_message start_date =
     utf8 [0xE2, 0x9C, 0x85] @ '' Download for date success: '' @ start_date"

text \<open>
  DuckDB is outside the module. Of a run it is only known which call raises: \<open>connect\<close>
  may, and \<open>con.sql\<close> may, depending on the script (the network, the upstream answer, the
  CSV it gets, the write to storage).
\<close>

record duckdb =
  connect_raises :: "error option"
  sql_raises :: "string \<Rightarrow> error option"

text \<open>
  The task returns the events it caused and either the exception that left it or \<open>None\<close>
  (here \<open>()\<close>). The function has no \<open>try\<close>, no \<open>with\<close> and no \<open>finally\<close>: an exception
  leaves it at the statement that raised, and the statements after it do not run.
\<close>

definition get_and_transfer_api_data_to_s3 ::
    "module_globals \<Rightarrow> duckdb \<Rightarrow> kwargs \<Rightarrow> event list \<times> (error + unit)" where
  "get_and_transfer_api_data_to_s3 g db ctx =
     (case get_dates ctx of
        Inl e \<Rightarrow> ([], Inl e)
      | Inr (start_date, end_date) \<Rightarrow>
          (let t1 = [LogInfo (start_message start_date end_date)] in
           case connect_raises db of
             Some e \<Rightarrow> (t1 @ [DuckdbConnect], Inl e)
           | None \<Rightarrow>
               (let q = sql_script g start_date end_date in
                case sql_raises db q of
                  Some e \<Rightarrow> (t1 @ [DuckdbConnect, ConSql q], Inl e)
                | None \<Rightarrow>
                    (t1 @ [DuckdbConnect, ConSql q, ConClose,
                           LogInfo (success_message start_date)],
                     Inr ()))))"

text \<open>The scripts a run handed to the engine, and whether an event is input or output.\<close>

fun executed_sql :: "event list \<Rightarrow> string list" where
  "executed_sql [] = []"
| "executed_sql (ConSql q # es) = q # executed_sql es"
| "executed_sql (e # es) = executed_sql es"

fun is_io :: "event \<Rightarrow> bool" where
  "is_io (VariableGet k) = True"
| "is_io (LogInfo m) = False"
| "is_io DuckdbConnect = True"
| "is_io (ConSql q) = True"
| "is_io ConClose = True"

text \<open>Whether an event is a read of the variable store.\<close>

fun reads_variable :: "event \<Rightarrow> bool" where
  "reads_variable (VariableGet k) = True"
| "reads_variable e = False"

text \<open>
  A script copies to \<open>dest\<close> when it ends with the closing part of the \<open>COPY\<close> statement
  around that target: \<open>') AS res ) TO '<dest>';\<close>.
\<close>

definition copies_to :: "string \<Rightarrow> string \<Rightarrow> bool" where
  "copies_to q dest = suffix (sql_copy_mid @ dest @ sql_copy_tail) q"

text \<open>A script reads the CSV at \<open>url\<close> when it holds the call \<open>read_csv_auto('<url>')\<close>.\<close>

definition reads_csv_from :: "string \<Rightarrow> string \<Rightarrow> bool" where
  "reads_csv_from q url = sublist (''read_csv_auto('' @ [CHR 0x27] @ url @ [CHR 0x27] @ '')'') q"

text \<open>
  A script sets the credentials \<open>ak\<close> and \<open>sk\<close> when it holds the two statements
  \<open>SET s3_access_key_id = '<ak>';\<close> and \<open>SET s3_secret_access_key = '<sk>';\<close>.
\<close>

definition sets_credentials :: "string \<Rightarrow> string \<Rightarrow> string \<Rightarrow> bool" where
  "sets_credentials q ak sk =
     (sublist (''SET s3_access_key_id = '' @ [CHR 0x27] @ ak @ [CHR 0x27] @ '';'') q \<and>
      sublist (''SET s3_secret_access_key = '' @ [CHR 0x27] @ sk @ [CHR 0x27] @ '';'') q)"

subsection \<open>Date order on the strings\<close>

text \<open>
  The date a string of the shape \<open>YYYY-MM-DD\<close> denotes, and the order of two such strings
  as dates. (The code never parses its strings; this is the reading the specification's
  ``date order'' refers to.)
\<close>

definition digit_val :: "char \<Rightarrow> nat" where
  "digit_val c = of_char c - 48"

fun parse_YYYY_MM_DD :: "string \<Rightarrow> (nat \<times> nat \<times> nat) option" where
  "parse_YYYY_MM_DD [y1, y2, y3, y4, s1, m1, m2, s2, d1, d2] =
     (if is_YYYY_MM_DD [y1, y2, y3, y4, s1, m1, m2, s2, d1, d2]
      then Some (1000 * digit_val y1 + 100 * digit_val y2 + 10 * digit_val y3 + digit_val y4,
                 10 * digit_val m1 + digit_val m2,
                 10 * digit_val d1 + digit_val d2)
      else None)"
| "parse_YYYY_MM_DD _ = None"

definition date_le :: "string \<Rightarrow> string \<Rightarrow> bool" where
  "date_le s e =
     (case parse_YYYY_MM_DD s of
        None \<Rightarrow> False
      | Some x \<Rightarrow> (case parse_YYYY_MM_DD e of None \<Rightarrow> False | Some y \<Rightarrow> x \<le> y))"

subsection \<open>Runs used as examples\<close>

text \<open>Midnight of a day in Moscow (UTC+3) and in UTC.\<close>

definition moscow_midnight :: "nat \<Rightarrow> nat \<Rightarrow> nat \<Rightarrow> datetime" where
  "moscow_midnight y m d =
     \<lparr>year = y, month = m, day = d, hour = 0, minute = 0, second = 0, microsecond = 0,
      tz = ''Europe/Moscow'', utcoffset = 10800\<rparr>"

definition utc_time :: "nat \<Rightarrow> nat \<Rightarrow> nat \<Rightarrow> nat \<Rightarrow> datetime" where
  "utc_time y m d h =
     \<lparr>year = y, month = m, day = d, hour = h, minute = 0, second = 0, microsecond = 0,
      tz = ''UTC'', utcoffset = 0\<rparr>"

text \<open>The context of a firing, as far as the module reads it.\<close>

definition interval_context :: "datetime \<Rightarrow> datetime \<Rightarrow> kwargs" where
  "interval_context a b = [''data_interval_start'' \<mapsto> a, ''data_interval_end'' \<mapsto> b]"

definition example_globals :: module_globals where
  "example_globals = \<lparr>ACCESS_KEY = ''minioadmin'', SECRET_KEY = ''minioadmin''\<rparr>"

definition example_variables :: variables where
  "example_variables = [''access_key'' \<mapsto> ''minioadmin'', ''secret_key'' \<mapsto> ''minioadmin'']"

text \<open>An engine on which every call succeeds, and one whose statement fails on an HTTP error.\<close>

definition working_db :: duckdb where
  "working_db = \<lparr>connect_raises = None, sql_raises = (\<lambda>q. None)\<rparr>"

definition http_error :: error where
  "http_error = EngineError ''HTTP Error: HTTP GET error (HTTP 503)''"

definition failing_db :: duckdb where
  "failing_db = \<lparr>connect_raises = None, sql_raises = (\<lambda>q. Some http_error)\<rparr>"

text \<open>
  The scheduler hands over the two ends of a data interval as timestamps of one time zone.
  Their years have four digits: the scheduler makes no interval that begins before the
  start date of the DAG, which is in 2025.
\<close>

definition scheduler_interval :: "datetime \<Rightarrow> datetime \<Rightarrow> bool" where
  "scheduler_interval a b =
     (valid_datetime a \<and> valid_datetime b \<and> tz a = tz b \<and> 1000 \<le> year a)"

definition moscow_night :: datetime where
  "moscow_night =
     \<lparr>year = 2025, month = 10, day = 21, hour = 1, minute = 0, second = 0, microsecond = 0,
      tz = ''Europe/Moscow'', utcoffset = 10800\<rparr>"

section \<open>Properties\<close>

subsection \<open>Digits and the date format\<close>

lemma digit_char_zero: "digit_char 0 = CHR ''0''"
  unfolding digit_char_def by code_simp

lemma of_char_digit_char: "d < 10 \<Longrightarrow> (of_char (digit_char d) :: nat) = 48 + d"
  by (simp add: digit_char_def)

lemma digit_char_less_iff: "a < 10 \<Longrightarrow> b < 10 \<Longrightarrow> digit_char a < digit_char b \<longleftrightarrow> a < b"
  by (simp add: less_char_def of_char_digit_char)

lemma digit_char_eq_iff: "a < 10 \<Longrightarrow> b < 10 \<Longrightarrow> digit_char a = digit_char b \<longleftrightarrow> a = b"
proof
  assume "a < 10" "b < 10" "digit_char a = digit_char b"
  then have "(of_char (digit_char a) :: nat) = of_char (digit_char b)" by simp
  with \<open>a < 10\<close> \<open>b < 10\<close> show "a = b" by (simp add: of_char_digit_char)
qed simp

lemma is_digit_digit_char: "d < 10 \<Longrightarrow> is_digit (digit_char d)"
  by (simp add: is_digit_def less_eq_char_def of_char_digit_char)

lemma str_nat_1: "n < 10 \<Longrightarrow> str_nat n = [digit_char n]"
  by (simp add: str_nat.simps)

lemma str_nat_2: "10 \<le> n \<Longrightarrow> n < 100 \<Longrightarrow> str_nat n = [digit_char (n div 10), digit_char (n mod 10)]"
  by (subst str_nat.simps) (simp add: str_nat_1)

lemma str_nat_3: "100 \<le> n \<Longrightarrow> n < 1000 \<Longrightarrow>
   str_nat n = [digit_char (n div 100), digit_char (n div 10 mod 10), digit_char (n mod 10)]"
  by (subst str_nat.simps) (simp add: str_nat_2 div_mult2_eq[symmetric])

lemma str_nat_4: "1000 \<le> n \<Longrightarrow> n < 10000 \<Longrightarrow>
   str_nat n = [digit_char (n div 1000), digit_char (n div 100 mod 10), digit_char (n div 10 mod 10), digit_char (n mod 10)]"
  by (subst str_nat.simps) (simp add: str_nat_3 div_mult2_eq[symmetric])

lemma replicate_1: "replicate (Suc 0) c = [c]" by simp
lemma replicate_2: "replicate 2 c = [c, c]" by (simp add: numeral_2_eq_2)
lemma replicate_3: "replicate 3 c = [c, c, c]" by (simp add: numeral_3_eq_3)

lemma zero_pad_2: "n < 100 \<Longrightarrow> zero_pad 2 n = [digit_char (n div 10), digit_char (n mod 10)]"
proof (cases "n < 10")
  case True
  then show ?thesis by (simp add: zero_pad_def str_nat_1 digit_char_zero)
next
  case False
  assume "n < 100"
  with False show ?thesis by (simp add: zero_pad_def str_nat_2)
qed

lemma zero_pad_4: 
  assumes "n < 10000"
  shows "zero_pad 4 n = [digit_char (n div 1000), digit_char (n div 100 mod 10), digit_char (n div 10 mod 10), digit_char (n mod 10)]"
proof -
  consider "n < 10" | "10 \<le> n" "n < 100" | "100 \<le> n" "n < 1000" | "1000 \<le> n"
    by linarith
  then show ?thesis
  proof cases
    case 1 then show ?thesis by (simp add: zero_pad_def str_nat_1 digit_char_zero replicate_3)
  next
    case 2 then show ?thesis by (simp add: zero_pad_def str_nat_2 digit_char_zero replicate_2)
  next
    case 3 then show ?thesis by (simp add: zero_pad_def str_nat_3 digit_char_zero)
  next
    case 4 with assms show ?thesis by (simp add: zero_pad_def str_nat_4)
  qed
qed

lemma div_mod_less:
  fixes a b k :: nat
  assumes "a < b"
  shows "a div k < b div k \<or> (a div k = b div k \<and> a mod k < b mod k)"
proof (cases "a div k = b div k")
  case True
  from assms have "k * (a div k) + a mod k < k * (b div k) + b mod k"
    by (simp only: mult_div_mod_eq)
  then have "a mod k < b mod k"
    by (simp only: True nat_add_left_cancel_less)
  with True show ?thesis by simp
next
  case False
  moreover from assms have "a div k \<le> b div k" by (simp add: div_le_mono)
  ultimately show ?thesis by simp
qed

lemma zero_pad_2_less:
  assumes "a < b" "b < 100"
  shows "zero_pad 2 a < zero_pad 2 b"
proof -
  from assms(1) have c: "a div 10 < b div 10 \<or> (a div 10 = b div 10 \<and> a mod 10 < b mod 10)"
    by (rule div_mod_less)
  from assms have d: "a div 10 < 10" "b div 10 < 10" "a mod 10 < 10" "b mod 10 < 10" by simp_all
  from assms have "a < 100" by simp
  then have "zero_pad 2 a = [digit_char (a div 10), digit_char (a mod 10)]" by (rule zero_pad_2)
  moreover from assms(2) have "zero_pad 2 b = [digit_char (b div 10), digit_char (b mod 10)]"
    by (rule zero_pad_2)
  moreover have "[digit_char (a div 10), digit_char (a mod 10)]
       < [digit_char (b div 10), digit_char (b mod 10)]"
    using c d by (simp add: digit_char_less_iff digit_char_eq_iff)
  ultimately show ?thesis by simp
qed

lemma zero_pad_4_split:
  assumes "n < 10000"
  shows "zero_pad 4 n = zero_pad 2 (n div 100) @ zero_pad 2 (n mod 100)"
proof -
  have "n div 100 div 10 = n div 1000" by (simp add: div_mult2_eq [symmetric])
  moreover have "n div 100 mod 10 = n div 100 mod 10" ..
  moreover have "n mod 100 div 10 = n div 10 mod 10"
    using mod_mult2_eq [of n 10 10] by simp
  moreover have "n mod 100 mod 10 = n mod 10"
    by (simp add: mod_mod_cancel)
  moreover from assms have "n div 100 < 100" by simp
  moreover have "n mod 100 < 100" by simp
  ultimately show ?thesis using assms by (simp add: zero_pad_4 zero_pad_2)
qed

lemma length_zero_pad_2: "n < 100 \<Longrightarrow> length (zero_pad 2 n) = 2"
  by (simp add: zero_pad_2)

lemma length_zero_pad_4: "n < 10000 \<Longrightarrow> length (zero_pad 4 n) = 4"
  by (simp add: zero_pad_4)

lemma less_append_same_length:
  fixes u w :: string
  assumes "u < w" "length u = length w"
  shows "u @ v < w @ z"
  using assms lexord_sufI [of u w "{(x, y). x < y}" v z] by (simp add: list_less_def)

lemma less_append_left:
  fixes u v :: string
  assumes "u < v"
  shows "x @ u < x @ v"
  using assms lexord_append_leftI [of u v "{(x, y). x < y}" x] by (simp add: list_less_def)

lemma zero_pad_4_less:
  assumes "a < b" "b < 10000"
  shows "zero_pad 4 a < zero_pad 4 b"
proof -
  from assms have a: "a < 10000" by simp
  from assms have bd: "b div 100 < 100" by simp
  have bm: "b mod 100 < 100" by simp
  from assms(1) consider "a div 100 < b div 100" | "a div 100 = b div 100" "a mod 100 < b mod 100"
    using div_mod_less [of a b 100] by blast
  then have "zero_pad 2 (a div 100) @ zero_pad 2 (a mod 100)
       < zero_pad 2 (b div 100) @ zero_pad 2 (b mod 100)"
  proof cases
    case 1
    then have "zero_pad 2 (a div 100) < zero_pad 2 (b div 100)"
      using bd by (rule zero_pad_2_less)
    moreover from 1 bd have "length (zero_pad 2 (a div 100)) = length (zero_pad 2 (b div 100))"
      by (simp add: length_zero_pad_2)
    ultimately show ?thesis by (rule less_append_same_length)
  next
    case 2
    from 2(2) bm have "zero_pad 2 (a mod 100) < zero_pad 2 (b mod 100)"
      by (rule zero_pad_2_less)
    then show ?thesis unfolding 2(1) by (rule less_append_left)
  qed
  with a assms(2) show ?thesis by (simp only: zero_pad_4_split)
qed

lemma days_in_month_le: "days_in_month y m \<le> 31"
  by (simp add: days_in_month_def)

lemma valid_datetime_bounds:
  "valid_datetime d \<Longrightarrow> year d < 10000 \<and> month d < 100 \<and> day d < 100"
  using days_in_month_le [of "year d" "month d"] by (simp add: valid_datetime_def)

lemma get_dates_Inr:
  assumes "ctx ''data_interval_start'' = Some a" "ctx ''data_interval_end'' = Some b"
  shows "get_dates ctx = Inr (format_YYYY_MM_DD a, format_YYYY_MM_DD b)"
  using assms by (simp add: get_dates_def getitem_def)

lemma format_padded:
  assumes "valid_datetime d" "1000 \<le> year d"
  shows "format_YYYY_MM_DD d =
    zero_pad 4 (year d) @ ''-'' @ zero_pad 2 (month d) @ ''-'' @ zero_pad 2 (day d)"
proof -
  from assms(1) have "year d < 10000"
    using valid_datetime_bounds by blast
  with assms(2) have "str_nat (year d) = zero_pad 4 (year d)"
    by (simp add: str_nat_4 zero_pad_4)
  then show ?thesis
    by (simp add: format_YYYY_MM_DD_def)
qed

lemma format_shape:
  assumes "valid_datetime d" "1000 \<le> year d"
  shows "is_YYYY_MM_DD (format_YYYY_MM_DD d)"
proof -
  from assms have b: "year d < 10000" "month d < 100" "day d < 100"
    using valid_datetime_bounds by blast+
  have m: "\<And>n::nat. n mod 10 < 10" "\<And>n::nat. n < 100 \<Longrightarrow> n div 10 < 10"
    "\<And>n::nat. n < 10000 \<Longrightarrow> n div 1000 < 10"
    by simp_all
  show ?thesis
    using b by (simp add: format_padded [OF assms] zero_pad_4 zero_pad_2 is_digit_digit_char m)
qed

lemma format_mono:
  assumes va: "valid_datetime a" and vb: "valid_datetime b"
    and ya: "1000 \<le> year a" and yb: "1000 \<le> year b"
    and le: "(year a, month a, day a) \<le> (year b, month b, day b)"
  shows "format_YYYY_MM_DD a \<le> format_YYYY_MM_DD b"
proof -
  note fa = format_padded [OF va ya] and fb = format_padded [OF vb yb]
  from va vb have ba: "year a < 10000" "month a < 100" "day a < 100"
    and bb: "year b < 10000" "month b < 100" "day b < 100"
    using valid_datetime_bounds by blast+
  from le have "year a < year b \<or> (year a \<le> year b \<and>
      (month a < month b \<or> (month a \<le> month b \<and> day a \<le> day b)))"
    by simp
  then consider
      (y) "year a < year b"
    | (m) "year a = year b" "month a < month b"
    | (d) "year a = year b" "month a = month b" "day a < day b"
    | (e) "year a = year b" "month a = month b" "day a = day b"
    by atomize_elim arith
  then show ?thesis
  proof cases
    case y
    with bb have "zero_pad 4 (year a) < zero_pad 4 (year b)" by (simp add: zero_pad_4_less)
    moreover from ba bb have "length (zero_pad 4 (year a)) = length (zero_pad 4 (year b))"
      by (simp add: length_zero_pad_4)
    ultimately have "format_YYYY_MM_DD a < format_YYYY_MM_DD b"
      unfolding fa fb by (rule less_append_same_length)
    then show ?thesis by simp
  next
    case m
    with bb have "zero_pad 2 (month a) < zero_pad 2 (month b)" by (simp add: zero_pad_2_less)
    moreover from ba bb have "length (zero_pad 2 (month a)) = length (zero_pad 2 (month b))"
      by (simp add: length_zero_pad_2)
    ultimately have "zero_pad 2 (month a) @ ''-'' @ zero_pad 2 (day a)
        < zero_pad 2 (month b) @ ''-'' @ zero_pad 2 (day b)"
      by (rule less_append_same_length)
    then have "''-'' @ zero_pad 2 (month a) @ ''-'' @ zero_pad 2 (day a)
        < ''-'' @ zero_pad 2 (month b) @ ''-'' @ zero_pad 2 (day b)"
      by (rule less_append_left)
    then have "format_YYYY_MM_DD a < format_YYYY_MM_DD b"
      unfolding fa fb m(1) by (rule less_append_left)
    then show ?thesis by simp
  next
    case d
    with bb have "zero_pad 2 (day a) < zero_pad 2 (day b)" by (simp add: zero_pad_2_less)
    then have "''-'' @ zero_pad 2 (day a) < ''-'' @ zero_pad 2 (day b)"
      by (rule less_append_left)
    then have "zero_pad 2 (month b) @ ''-'' @ zero_pad 2 (day a)
        < zero_pad 2 (month b) @ ''-'' @ zero_pad 2 (day b)"
      by (rule less_append_left)
    then have "''-'' @ zero_pad 2 (month b) @ ''-'' @ zero_pad 2 (day a)
        < ''-'' @ zero_pad 2 (month b) @ ''-'' @ zero_pad 2 (day b)"
      by (rule less_append_left)
    then have "format_YYYY_MM_DD a < format_YYYY_MM_DD b"
      unfolding fa fb d(1,2) by (rule less_append_left)
    then show ?thesis by simp
  next
    case e
    then show ?thesis by (simp add: format_YYYY_MM_DD_def)
  qed
qed

lemma civil_fields_less_date:
  assumes "civil_fields a < civil_fields b"
  shows "(year a, month a, day a) \<le> (year b, month b, day b)"
  using assms by (simp add: civil_fields_def) arith

lemma digit_val_digit_char: "d < 10 \<Longrightarrow> digit_val (digit_char d) = d"
  by (simp add: digit_val_def of_char_digit_char)

lemma digits_2: "10 * (n div 10) + n mod 10 = (n::nat)"
  by simp

lemma digits_4: "1000 * (n div 1000) + 100 * (n div 100 mod 10) + 10 * (n div 10 mod 10) + n mod 10 = (n::nat)"
proof -
  have "n div 100 = 10 * (n div 1000) + n div 100 mod 10"
    using mult_div_mod_eq [of 10 "n div 100"] by (simp add: div_mult2_eq [symmetric])
  moreover have "n div 10 = 10 * (n div 100) + n div 10 mod 10"
    using mult_div_mod_eq [of 10 "n div 10"] by (simp add: div_mult2_eq [symmetric])
  moreover have "n = 10 * (n div 10) + n mod 10" by simp
  ultimately show ?thesis by linarith
qed

lemma parse_format:
  assumes "valid_datetime d" "1000 \<le> year d"
  shows "parse_YYYY_MM_DD (format_YYYY_MM_DD d) = Some (year d, month d, day d)"
proof -
  from assms have b: "year d < 10000" "month d < 100" "day d < 100"
    using valid_datetime_bounds by blast+
  have m: "\<And>n::nat. n mod 10 < 10" "\<And>n::nat. n < 100 \<Longrightarrow> n div 10 < 10"
    "\<And>n::nat. n < 10000 \<Longrightarrow> n div 1000 < 10"
    by simp_all
  have f: "format_YYYY_MM_DD d =
     [digit_char (year d div 1000), digit_char (year d div 100 mod 10),
      digit_char (year d div 10 mod 10), digit_char (year d mod 10), CHR ''-'',
      digit_char (month d div 10), digit_char (month d mod 10), CHR ''-'',
      digit_char (day d div 10), digit_char (day d mod 10)]"
    using b by (simp add: format_padded [OF assms] zero_pad_4 zero_pad_2)
  have s: "is_YYYY_MM_DD (format_YYYY_MM_DD d)" using assms by (rule format_shape)
  show ?thesis
    using s b unfolding f
    by (simp add: digit_val_digit_char m digits_4 del: is_YYYY_MM_DD.simps)
qed

lemma date_le_format:
  assumes "valid_datetime a" "valid_datetime b" "1000 \<le> year a" "1000 \<le> year b"
  shows "date_le (format_YYYY_MM_DD a) (format_YYYY_MM_DD b)
     \<longleftrightarrow> (year a, month a, day a) \<le> (year b, month b, day b)"
  using assms by (simp add: date_le_def parse_format del: less_eq_prod_simp)

text \<open>Below the year 1000 the year has fewer than four digits, and the shape is another.\<close>

lemma format_before_year_1000:
  "format_YYYY_MM_DD (utc_time 999 12 31 0) = ''999-12-31'' \<and>
   \<not> is_YYYY_MM_DD (format_YYYY_MM_DD (utc_time 999 12 31 0))"
  by code_simp

subsection \<open>No interval before the start date of the DAG\<close>

text \<open>
  A timestamp that is not before \<open>args_start_date\<close>, in whatever zone, has a year of four
  digits: a year below 1000 is before the start date both field by field and as an instant.
\<close>

lemma days_before_year_le: "days_before_year y \<le> (y - 1) * 367"
proof -
  have "(y - 1) div 4 \<le> y - 1" "(y - 1) div 400 \<le> y - 1" by simp_all
  then show ?thesis unfolding days_before_year_def by linarith
qed

lemma days_before_month_le:
  assumes "1 \<le> m" "m \<le> 12"
  shows "days_before_month y m \<le> 335"
proof -
  from assms have "m = 1 \<or> m = 2 \<or> m = 3 \<or> m = 4 \<or> m = 5 \<or> m = 6 \<or> m = 7 \<or> m = 8 \<or>
      m = 9 \<or> m = 10 \<or> m = 11 \<or> m = 12"
    by arith
  then show ?thesis
    by (elim disjE) (simp_all add: days_before_month_def)
qed

lemma toordinal_args_start_date: "toordinal args_start_date = 739544"
  by (simp add: toordinal_def args_start_date_def days_before_year_def days_before_month_def
      is_leap_def)

lemma utc_microseconds_args_start_date:
  "utc_microseconds args_start_date = 63896590800000000"
  by (simp add: utc_microseconds_def toordinal_args_start_date) (simp add: args_start_date_def)

lemma toordinal_before_1000:
  assumes "valid_datetime a" "year a < 1000"
  shows "toordinal a \<le> 366632"
proof -
  from assms(2) have "(year a - 1) * 367 \<le> 998 * 367" by simp
  with days_before_year_le [of "year a"] have "days_before_year (year a) \<le> 366266" by simp
  moreover from assms(1) have "days_before_month (year a) (month a) \<le> 335"
    by (simp add: valid_datetime_def days_before_month_le)
  moreover from assms(1) have "day a \<le> 31"
    using days_in_month_le [of "year a" "month a"] by (simp add: valid_datetime_def)
  ultimately show ?thesis unfolding toordinal_def by linarith
qed

lemma utc_microseconds_before_1000:
  assumes "valid_datetime a" "year a < 1000"
  shows "utc_microseconds a < utc_microseconds args_start_date"
proof -
  from assms have t: "int (toordinal a) \<le> 366632"
    using toordinal_before_1000 by fastforce
  from assms(1) have s: "int (second a + minute a * 60 + hour a * 3600) \<le> 86399"
    by (simp add: valid_datetime_def)
  from assms(1) have "\<bar>utcoffset a\<bar> < 86400" and u: "int (microsecond a) < 1000000"
    by (simp_all add: valid_datetime_def)
  then have o: "- utcoffset a < 86400" by linarith
  from t have "int (toordinal a) * 86400 \<le> 366632 * 86400" by simp
  with s o have "(int (toordinal a) * 86400
        + int (second a + minute a * 60 + hour a * 3600)) - utcoffset a \<le> 366632 * 86400 + 86399 + 86399"
    by linarith
  then have "((int (toordinal a) * 86400
        + int (second a + minute a * 60 + hour a * 3600)) - utcoffset a) * 1000000
       \<le> 31677177598000000"
    by simp
  with u have "utc_microseconds a < 63896590800000000"
    unfolding utc_microseconds_def by linarith
  then show ?thesis
    by (simp only: utc_microseconds_args_start_date)
qed

lemma year_not_before_start_date:
  assumes "valid_datetime a" "dt_le args_start_date a"
  shows "1000 \<le> year a"
proof (rule ccontr)
  assume "\<not> 1000 \<le> year a"
  then have y: "year a < 1000" by simp
  then have "civil_fields a < civil_fields args_start_date"
    by (simp add: civil_fields_def args_start_date_def)
  moreover from assms(1) y have "utc_microseconds a < utc_microseconds args_start_date"
    by (rule utc_microseconds_before_1000)
  ultimately have "dt_less a args_start_date"
    by (simp add: dt_less_def)
  with assms(2) show False by (simp add: dt_le_def)
qed

lemma scheduler_interval_since_start_date:
  assumes "valid_datetime a" "valid_datetime b" "tz a = tz b" "dt_le args_start_date a"
  shows "scheduler_interval a b"
  using assms year_not_before_start_date [of a] by (simp add: scheduler_interval_def)

lemma civil_fields_less_year:
  assumes "civil_fields a < civil_fields b"
  shows "year a \<le> year b"
  using assms by (simp add: civil_fields_def) arith

subsection \<open>The window: \<open>get_dates\<close>\<close>

lemma format_moscow_20: "format_YYYY_MM_DD (moscow_midnight 2025 10 20) = ''2025-10-20''"
  by code_simp

lemma format_moscow_21: "format_YYYY_MM_DD (moscow_midnight 2025 10 21) = ''2025-10-21''"
  by code_simp

lemma valid_moscow_20: "valid_datetime (moscow_midnight 2025 10 20)"
  by (simp add: valid_datetime_def moscow_midnight_def days_in_month_def)

lemma valid_moscow_21: "valid_datetime (moscow_midnight 2025 10 21)"
  by (simp add: valid_datetime_def moscow_midnight_def days_in_month_def)

lemma start_date_le_moscow_20: "dt_le args_start_date (moscow_midnight 2025 10 20)"
  by (simp add: dt_le_def dt_less_def args_start_date_def moscow_midnight_def civil_fields_def)

lemma scheduler_moscow_20_21:
  "scheduler_interval (moscow_midnight 2025 10 20) (moscow_midnight 2025 10 21)"
proof -
  have "tz (moscow_midnight 2025 10 20) = tz (moscow_midnight 2025 10 21)"
    by (simp add: moscow_midnight_def)
  with valid_moscow_20 valid_moscow_21 show ?thesis
    using start_date_le_moscow_20 by (rule scheduler_interval_since_start_date)
qed

lemma moscow_20_less_21: "dt_less (moscow_midnight 2025 10 20) (moscow_midnight 2025 10 21)"
  by (simp add: dt_less_def moscow_midnight_def civil_fields_def)

lemma moscow_20_le_21: "dt_le (moscow_midnight 2025 10 20) (moscow_midnight 2025 10 21)"
  by (simp add: dt_le_def dt_less_def moscow_midnight_def civil_fields_def)

lemma moscow_20_le_20: "dt_le (moscow_midnight 2025 10 20) (moscow_midnight 2025 10 20)"
  by (simp add: dt_le_def dt_less_def moscow_midnight_def civil_fields_def)

lemma interval_context_start: "interval_context a b ''data_interval_start'' = Some a"
  by (simp add: interval_context_def)

lemma interval_context_end: "interval_context a b ''data_interval_end'' = Some b"
  by (simp add: interval_context_def)

lemma task_connected:
  assumes "get_dates ctx = Inr (s, e)" "connect_raises db = None"
  shows "executed_sql (fst (get_and_transfer_api_data_to_s3 g db ctx)) = [sql_script g s e]"
  using assms by (simp add: get_and_transfer_api_data_to_s3_def Let_def split: option.split)

text \<open>
  \<^bold>\<open>C1, as stated, fails.\<close> The claim is that \<open>get_dates\<close> fails with
  \<open>InvalidWindowError\<close> whenever the end of the interval is not after its start, before any
  input or output. The function compares nothing: for the interval from 2025-10-21 back to
  2025-10-20 it returns the two strings, and the task goes on to the engine.
\<close>

theorem get_dates_rejects_no_window_counterexample:
  "dt_le (moscow_midnight 2025 10 20) (moscow_midnight 2025 10 21) \<and>
   get_dates (interval_context (moscow_midnight 2025 10 21) (moscow_midnight 2025 10 20))
     = Inr (''2025-10-21'', ''2025-10-20'') \<and>
   list_ex is_io (fst (get_and_transfer_api_data_to_s3 example_globals working_db
     (interval_context (moscow_midnight 2025 10 21) (moscow_midnight 2025 10 20))))"
  by (simp add: get_dates_Inr interval_context_start interval_context_end
      format_moscow_20 format_moscow_21 moscow_20_le_21
      get_and_transfer_api_data_to_s3_def working_db_def)

text \<open>
  \<^bold>\<open>C1, amended.\<close> \<open>get_dates\<close> has no check of the window: for every pair of interval
  timestamps in the context, those with the end at or before the start included, it
  returns the two formatted dates; nothing is rejected before input or output, and a task
  that gets its connection runs the statement for exactly those two dates.
\<close>

theorem get_dates_returns_any_window:
  assumes "ctx ''data_interval_start'' = Some a" "ctx ''data_interval_end'' = Some b"
  shows "get_dates ctx = Inr (format_YYYY_MM_DD a, format_YYYY_MM_DD b) \<and>
    (connect_raises db = None \<longrightarrow>
       executed_sql (fst (get_and_transfer_api_data_to_s3 g db ctx))
         = [sql_script g (format_YYYY_MM_DD a) (format_YYYY_MM_DD b)])"
proof -
  from assms have "get_dates ctx = Inr (format_YYYY_MM_DD a, format_YYYY_MM_DD b)"
    by (rule get_dates_Inr)
  then show ?thesis
    by (simp add: task_connected)
qed

theorem get_dates_returns_any_window_witness:
  "dt_le (moscow_midnight 2025 10 20) (moscow_midnight 2025 10 20) \<and>
   get_dates (interval_context (moscow_midnight 2025 10 20) (moscow_midnight 2025 10 20))
     = Inr (''2025-10-20'', ''2025-10-20'') \<and>
   executed_sql (fst (get_and_transfer_api_data_to_s3 example_globals working_db
     (interval_context (moscow_midnight 2025 10 20) (moscow_midnight 2025 10 20))))
     = [sql_script example_globals ''2025-10-20'' ''2025-10-20'']"
  using get_dates_returns_any_window [of
      "interval_context (moscow_midnight 2025 10 20) (moscow_midnight 2025 10 20)"
      "moscow_midnight 2025 10 20" "moscow_midnight 2025 10 20" working_db example_globals]
  by (simp add: interval_context_start interval_context_end format_moscow_20 moscow_20_le_20
      working_db_def)

text \<open>
  \<^bold>\<open>C2.\<close> For every valid scheduler interval \<open>(a, b)\<close> with \<open>a < b\<close>, \<open>get_dates\<close> returns
  two strings of the shape \<open>YYYY-MM-DD\<close>, the first at or before the second in date order
  (and as strings, which is the same for this shape). A scheduler interval is of one zone
  and has a year of four digits, as every interval since the start date of the DAG has
  (\<open>scheduler_interval_since_start_date\<close>); for a year below 1000 the unpadded year gives
  another shape (\<open>format_before_year_1000\<close>).
\<close>

theorem get_dates_window_ordered:
  assumes "ctx ''data_interval_start'' = Some a" "ctx ''data_interval_end'' = Some b"
    and "scheduler_interval a b"
    and "dt_less a b"
  shows "get_dates ctx = Inr (format_YYYY_MM_DD a, format_YYYY_MM_DD b) \<and>
    is_YYYY_MM_DD (format_YYYY_MM_DD a) \<and> is_YYYY_MM_DD (format_YYYY_MM_DD b) \<and>
    date_le (format_YYYY_MM_DD a) (format_YYYY_MM_DD b) \<and>
    format_YYYY_MM_DD a \<le> format_YYYY_MM_DD b"
proof -
  from assms(3) have va: "valid_datetime a" and vb: "valid_datetime b" and z: "tz a = tz b"
    and ya: "1000 \<le> year a"
    by (simp_all add: scheduler_interval_def)
  from z assms(4) have lt: "civil_fields a < civil_fields b"
    by (simp add: dt_less_def)
  then have "year a \<le> year b"
    by (rule civil_fields_less_year)
  with ya have yb: "1000 \<le> year b" by simp
  from lt have le: "(year a, month a, day a) \<le> (year b, month b, day b)"
    by (rule civil_fields_less_date)
  with va vb ya yb have "date_le (format_YYYY_MM_DD a) (format_YYYY_MM_DD b)"
    by (simp only: date_le_format)
  moreover from va vb ya yb le have "format_YYYY_MM_DD a \<le> format_YYYY_MM_DD b"
    by (rule format_mono)
  moreover from assms(1,2) have "get_dates ctx = Inr (format_YYYY_MM_DD a, format_YYYY_MM_DD b)"
    by (rule get_dates_Inr)
  ultimately show ?thesis
    using va vb ya yb by (simp add: format_shape)
qed

theorem get_dates_window_ordered_witness:
  "get_dates (interval_context (moscow_midnight 2025 10 20) (moscow_midnight 2025 10 21))
     = Inr (''2025-10-20'', ''2025-10-21'') \<and>
   is_YYYY_MM_DD ''2025-10-20'' \<and> is_YYYY_MM_DD ''2025-10-21'' \<and>
   date_le ''2025-10-20'' ''2025-10-21'' \<and> (''2025-10-20'' :: string) \<le> ''2025-10-21''"
  using get_dates_window_ordered [of
      "interval_context (moscow_midnight 2025 10 20) (moscow_midnight 2025 10 21)"
      "moscow_midnight 2025 10 20" "moscow_midnight 2025 10 21"]
  by (simp only: interval_context_start interval_context_end scheduler_moscow_20_21
      moscow_20_less_21 format_moscow_20 format_moscow_21)

text \<open>
  \<^bold>\<open>C8.\<close> \<open>get_dates\<close> reads the two interval entries of its context and nothing else, no
  clock in particular: two calls whose contexts agree on \<open>data_interval_start\<close> and
  \<open>data_interval_end\<close> give the same result, whatever else the contexts hold and whenever
  they happen.
\<close>

theorem get_dates_deterministic:
  assumes "ctx1 ''data_interval_start'' = ctx2 ''data_interval_start''"
    and "ctx1 ''data_interval_end'' = ctx2 ''data_interval_end''"
  shows "get_dates ctx1 = get_dates ctx2"
proof -
  from assms have "getitem ctx1 ''data_interval_start'' = getitem ctx2 ''data_interval_start''"
    and "getitem ctx1 ''data_interval_end'' = getitem ctx2 ''data_interval_end''"
    by (simp_all add: getitem_def)
  then show ?thesis
    unfolding get_dates_def by (simp only:)
qed

theorem get_dates_deterministic_witness:
  "get_dates ((interval_context (moscow_midnight 2025 10 20) (moscow_midnight 2025 10 21))
       (''logical_date'' \<mapsto> utc_time 2025 10 21 2))
   = get_dates ((interval_context (moscow_midnight 2025 10 20) (moscow_midnight 2025 10 21))
       (''logical_date'' \<mapsto> utc_time 2031 1 1 9))"
  using get_dates_deterministic [of
    "(interval_context (moscow_midnight 2025 10 20) (moscow_midnight 2025 10 21))
       (''logical_date'' \<mapsto> utc_time 2025 10 21 2)"
    "(interval_context (moscow_midnight 2025 10 20) (moscow_midnight 2025 10 21))
       (''logical_date'' \<mapsto> utc_time 2031 1 1 9)"]
  by (simp add: interval_context_def)

text \<open>
  Between timestamps of different zones the order of the instants is not the order of the
  local dates: 01:00 on the 21st in Moscow is before 23:00 on the 20th in UTC. Hence the
  one zone of a scheduler interval.
\<close>

lemma moscow_night_less_utc_evening:
  "dt_less moscow_night
           (utc_time 2025 10 20 23)"
  by (simp add: dt_less_def utc_time_def moscow_night_def utc_microseconds_def toordinal_def
      days_before_year_def days_before_month_def is_leap_def)

lemma format_moscow_night:
  "format_YYYY_MM_DD moscow_night = ''2025-10-21''"
  unfolding moscow_night_def by code_simp

lemma format_utc_evening: "format_YYYY_MM_DD (utc_time 2025 10 20 23) = ''2025-10-20''"
  by code_simp

lemma dates_invert_across_zones:
  "dt_less moscow_night
           (utc_time 2025 10 20 23) \<and>
   \<not> format_YYYY_MM_DD moscow_night
       \<le> format_YYYY_MM_DD (utc_time 2025 10 20 23)"
  by (simp only: moscow_night_less_utc_evening format_moscow_night format_utc_evening) simp

subsection \<open>The script and the task\<close>

lemma sql_script_copies_to:
  "copies_to (sql_script g s e) (destination_path LAYER SOURCE s)"
proof -
  have "sql_script g s e =
      (sql_settings (ACCESS_KEY g) (SECRET_KEY g) @ sql_copy_head @ source_url s e) @
      (sql_copy_mid @ destination_path LAYER SOURCE s @ sql_copy_tail)"
    unfolding sql_script_def by (simp only: append_assoc)
  then show ?thesis
    unfolding copies_to_def by (rule suffixI)
qed

lemma sql_script_reads_csv:
  "reads_csv_from (sql_script g s e) (source_url s e)"
proof -
  let ?before = "''        -- '' @ comment_copy @ nl @
     ''        COPY'' @ nl @
     ''        ('' @ nl @
     ''            SELECT'' @ nl @
     ''                *'' @ nl @
     ''            FROM'' @ nl @
     ''                -- '' @ comment_read @ nl @
     ''                ''"
  let ?after = "'' AS res'' @ nl @
     ''        ) '' @ nl @
     ''        -- '' @ comment_save @ nl @
     ''        TO '' @ [CHR 0x27]"
  let ?call = "''read_csv_auto('' @ [CHR 0x27] @ source_url s e @ [CHR 0x27] @ '')''"
  have h: "sql_copy_head = ?before @ ''read_csv_auto('' @ [CHR 0x27]"
    by (simp add: sql_copy_head_def)
  have m: "sql_copy_mid = [CHR 0x27] @ '')'' @ ?after"
    by (simp add: sql_copy_mid_def)
  have "sql_script g s e =
      (sql_settings (ACCESS_KEY g) (SECRET_KEY g) @ ?before) @ ?call @
      (?after @ destination_path LAYER SOURCE s @ sql_copy_tail)"
    unfolding sql_script_def h m by (simp only: append_assoc)
  then show ?thesis
    unfolding reads_csv_from_def by (simp only: sublist_appendI)
qed

lemma sql_settings_sets_credentials:
  "sets_credentials (sql_settings ak sk) ak sk"
proof -
  let ?before = "nl @
     ''        -- '' @ comment_timezone @ nl @
     ''        SET TIMEZONE='UTC';'' @ nl @
     ''        '' @ nl @
     ''        -- '' @ comment_httpfs @ nl @
     ''        INSTALL httpfs;'' @ nl @
     ''        LOAD httpfs;'' @ nl @
     ''        '' @ nl @
     ''        -- '' @ comment_minio @ nl @
     ''        SET s3_url_style = 'path';           '' @ nl @
     ''        SET s3_endpoint = 'minio:9000';      '' @ nl @
     ''        ''"
  let ?access = "''SET s3_access_key_id = '' @ [CHR 0x27] @ ak @ [CHR 0x27] @ '';''"
  let ?secret = "''SET s3_secret_access_key = '' @ [CHR 0x27] @ sk @ [CHR 0x27] @ '';''"
  let ?after = "'' '' @ nl @ ''        SET s3_use_ssl = FALSE;             '' @ nl @ nl"
  have a: "sql_settings ak sk =
      ?before @ ?access @ (''     '' @ nl @ ''        '' @ ?secret @ ?after)"
    by (simp add: sql_settings_def)
  have b: "sql_settings ak sk =
      (?before @ ?access @ ''     '' @ nl @ ''        '') @ ?secret @ ?after"
    by (simp add: sql_settings_def)
  have "sublist ?access (sql_settings ak sk)"
    by (subst a) (rule sublist_appendI)
  moreover have "sublist ?secret (sql_settings ak sk)"
    by (subst b) (rule sublist_appendI)
  ultimately show ?thesis
    by (simp add: sets_credentials_def)
qed

lemma sql_script_sets_credentials:
  "sets_credentials (sql_script g s e) (ACCESS_KEY g) (SECRET_KEY g)"
  using sql_settings_sets_credentials [of "ACCESS_KEY g" "SECRET_KEY g"]
  unfolding sets_credentials_def sql_script_def
  by (simp only: sublist_append) simp

lemma source_url_parameters:
  "sublist (''starttime='' @ s) (source_url s e) \<and>
   sublist (''endtime='' @ e) (source_url s e) \<and>
   sublist ''format=csv'' (source_url s e) \<and>
   sublist (''starttime='' @ s @ ''&endtime='' @ e) (source_url s e)"
proof -
  have a: "source_url s e =
      ''https://earthquake.usgs.gov/fdsnws/event/1/query?format=csv&'' @
      (''starttime='' @ s) @ (''&endtime='' @ e)"
    by (simp add: source_url_def)
  have b: "source_url s e =
      (''https://earthquake.usgs.gov/fdsnws/event/1/query?format=csv&starttime='' @ s @ ''&'') @
      (''endtime='' @ e) @ []"
    by (simp add: source_url_def)
  have c: "source_url s e =
      ''https://earthquake.usgs.gov/fdsnws/event/1/query?'' @ ''format=csv'' @
      (''&starttime='' @ s @ ''&endtime='' @ e)"
    by (simp add: source_url_def)
  have d: "source_url s e =
      ''https://earthquake.usgs.gov/fdsnws/event/1/query?format=csv&'' @
      (''starttime='' @ s @ ''&endtime='' @ e) @ []"
    by (simp add: source_url_def)
  have "sublist (''starttime='' @ s) (source_url s e)"
    by (subst a) (rule sublist_appendI)
  moreover have "sublist (''endtime='' @ e) (source_url s e)"
    by (subst b) (rule sublist_appendI)
  moreover have "sublist ''format=csv'' (source_url s e)"
    by (subst c) (rule sublist_appendI)
  moreover have "sublist (''starttime='' @ s @ ''&endtime='' @ e) (source_url s e)"
    by (subst d) (rule sublist_appendI)
  ultimately show ?thesis by simp
qed

lemma source_url_inj: "source_url s e1 = source_url s e2 \<longleftrightarrow> e1 = e2"
  by (simp add: source_url_def)

lemma sql_script_end_date_inj: "sql_script g s e1 = sql_script g s e2 \<longleftrightarrow> e1 = e2"
  by (simp add: sql_script_def source_url_inj)

lemma format_moscow_22: "format_YYYY_MM_DD (moscow_midnight 2025 10 22) = ''2025-10-22''"
  by code_simp

lemma get_dates_scenario:
  "get_dates (interval_context (moscow_midnight 2025 10 20) (moscow_midnight 2025 10 21))
     = Inr (''2025-10-20'', ''2025-10-21'')"
  by (simp add: get_dates_Inr interval_context_start interval_context_end
      format_moscow_20 format_moscow_21)

lemma get_dates_longer_window:
  "get_dates (interval_context (moscow_midnight 2025 10 20) (moscow_midnight 2025 10 22))
     = Inr (''2025-10-20'', ''2025-10-22'')"
  by (simp add: get_dates_Inr interval_context_start interval_context_end
      format_moscow_20 format_moscow_22)

lemma connect_working_db: "connect_raises working_db = None"
  by (simp add: working_db_def)

lemma connect_failing_db: "connect_raises failing_db = None"
  by (simp add: failing_db_def)

lemma sql_working_db: "sql_raises working_db q = None"
  by (simp add: working_db_def)

lemma sql_failing_db: "sql_raises failing_db q = Some http_error"
  by (simp add: failing_db_def)

lemma task_statement_raises:
  assumes "get_dates ctx = Inr (s, e)" "connect_raises db = None"
    and "sql_raises db (sql_script g s e) = Some err"
  shows "get_and_transfer_api_data_to_s3 g db ctx =
    ([LogInfo (start_message s e), DuckdbConnect, ConSql (sql_script g s e)], Inl err)"
  using assms by (simp add: get_and_transfer_api_data_to_s3_def)

lemma task_succeeds:
  assumes "get_dates ctx = Inr (s, e)" "connect_raises db = None"
    and "sql_raises db (sql_script g s e) = None"
  shows "get_and_transfer_api_data_to_s3 g db ctx =
    ([LogInfo (start_message s e), DuckdbConnect, ConSql (sql_script g s e), ConClose,
      LogInfo (success_message s)], Inr ())"
  using assms by (simp add: get_and_transfer_api_data_to_s3_def)

lemma task_reads_no_variable:
  "\<not> list_ex reads_variable (fst (get_and_transfer_api_data_to_s3 g db ctx))"
  by (simp add: get_and_transfer_api_data_to_s3_def Let_def
      split: sum.split prod.split option.split)

text \<open>
  \<^bold>\<open>C3.\<close> The destination is a function of the layer, the source and the start date and of
  nothing else. Two runs for the same window, whatever their credentials, their engine's
  outcome and the rest of their context, hand the engine a script that copies to the one
  path \<open>destination_path LAYER SOURCE start_date\<close>: the second run overwrites the object of
  the first.
\<close>

theorem destination_path_function_of_start_date:
  assumes "get_dates ctx1 = Inr (s, e)" "get_dates ctx2 = Inr (s, e)"
    and "connect_raises db1 = None" "connect_raises db2 = None"
  shows "\<exists>q1 q2.
    executed_sql (fst (get_and_transfer_api_data_to_s3 g1 db1 ctx1)) = [q1] \<and>
    executed_sql (fst (get_and_transfer_api_data_to_s3 g2 db2 ctx2)) = [q2] \<and>
    copies_to q1 (destination_path LAYER SOURCE s) \<and>
    copies_to q2 (destination_path LAYER SOURCE s)"
  using assms by (simp add: task_connected sql_script_copies_to)

theorem destination_path_function_of_start_date_witness:
  "\<exists>q1 q2.
    executed_sql (fst (get_and_transfer_api_data_to_s3 example_globals failing_db
      (interval_context (moscow_midnight 2025 10 20) (moscow_midnight 2025 10 21)))) = [q1] \<and>
    executed_sql (fst (get_and_transfer_api_data_to_s3 example_globals working_db
      (interval_context (moscow_midnight 2025 10 20) (moscow_midnight 2025 10 21)))) = [q2] \<and>
    copies_to q1 (destination_path LAYER SOURCE ''2025-10-20'') \<and>
    copies_to q2 (destination_path LAYER SOURCE ''2025-10-20'')"
  using destination_path_function_of_start_date [OF get_dates_scenario get_dates_scenario
      connect_failing_db connect_working_db]
  by simp

text \<open>
  \<^bold>\<open>C4.\<close> For the interval from 2025-10-20 00:00 to 2025-10-21 00:00 in Moscow the window is
  \<open>("2025-10-20", "2025-10-21")\<close> and the object written is
  \<open>raw/earthquake/2025-10-20/2025-10-20_00-00-00.gz.parquet\<close>, in the bucket \<open>prod\<close>: the
  target of the \<open>COPY\<close> is that path behind \<open>s3://prod/\<close>.
\<close>

theorem scenario_window_and_destination:
  "get_dates (interval_context (moscow_midnight 2025 10 20) (moscow_midnight 2025 10 21))
     = Inr (''2025-10-20'', ''2025-10-21'') \<and>
   object_key LAYER SOURCE ''2025-10-20''
     = ''raw/earthquake/2025-10-20/2025-10-20_00-00-00.gz.parquet'' \<and>
   destination_path LAYER SOURCE ''2025-10-20''
     = ''s3://prod/raw/earthquake/2025-10-20/2025-10-20_00-00-00.gz.parquet'' \<and>
   (\<exists>q. executed_sql (fst (get_and_transfer_api_data_to_s3 example_globals working_db
      (interval_context (moscow_midnight 2025 10 20) (moscow_midnight 2025 10 21)))) = [q] \<and>
     copies_to q ''s3://prod/raw/earthquake/2025-10-20/2025-10-20_00-00-00.gz.parquet'')"
proof -
  have d: "destination_path LAYER SOURCE ''2025-10-20''
     = ''s3://prod/raw/earthquake/2025-10-20/2025-10-20_00-00-00.gz.parquet''"
    by (simp add: destination_path_def object_key_def LAYER_def SOURCE_def)
  have k: "object_key LAYER SOURCE ''2025-10-20''
     = ''raw/earthquake/2025-10-20/2025-10-20_00-00-00.gz.parquet''"
    by (simp add: object_key_def LAYER_def SOURCE_def)
  have "copies_to (sql_script example_globals ''2025-10-20'' ''2025-10-21'')
     (destination_path LAYER SOURCE ''2025-10-20'')"
    by (rule sql_script_copies_to)
  then have "copies_to (sql_script example_globals ''2025-10-20'' ''2025-10-21'')
     ''s3://prod/raw/earthquake/2025-10-20/2025-10-20_00-00-00.gz.parquet''"
    by (simp only: d)
  with d k show ?thesis
    by (simp only: get_dates_scenario task_connected [OF get_dates_scenario connect_working_db])
       simp
qed

text \<open>
  \<^bold>\<open>C5.\<close> For every window the script the task runs reads the CSV at a URL that holds
  \<open>starttime=<start_date>\<close>, \<open>endtime=<end_date>\<close> and \<open>format=csv\<close>; for the window of the
  scenario it holds \<open>starttime=2025-10-20&endtime=2025-10-21\<close>.
\<close>

theorem source_url_has_window_parameters:
  assumes "get_dates ctx = Inr (s, e)" "connect_raises db = None"
  shows "\<exists>q. executed_sql (fst (get_and_transfer_api_data_to_s3 g db ctx)) = [q] \<and>
    reads_csv_from q (source_url s e) \<and>
    sublist (''starttime='' @ s) (source_url s e) \<and>
    sublist (''endtime='' @ e) (source_url s e) \<and>
    sublist ''format=csv'' (source_url s e) \<and>
    sublist (''starttime='' @ s @ ''&endtime='' @ e) (source_url s e)"
  using assms source_url_parameters [of s e]
  by (simp add: task_connected sql_script_reads_csv)

theorem source_url_has_window_parameters_witness:
  "\<exists>q. executed_sql (fst (get_and_transfer_api_data_to_s3 example_globals working_db
      (interval_context (moscow_midnight 2025 10 20) (moscow_midnight 2025 10 21)))) = [q] \<and>
    reads_csv_from q (source_url ''2025-10-20'' ''2025-10-21'') \<and>
    sublist ''starttime=2025-10-20'' (source_url ''2025-10-20'' ''2025-10-21'') \<and>
    sublist ''endtime=2025-10-21'' (source_url ''2025-10-20'' ''2025-10-21'') \<and>
    sublist ''format=csv'' (source_url ''2025-10-20'' ''2025-10-21'') \<and>
    sublist ''starttime=2025-10-20&endtime=2025-10-21'' (source_url ''2025-10-20'' ''2025-10-21'')"
  using source_url_has_window_parameters [OF get_dates_scenario connect_working_db,
      of example_globals]
  by simp

text \<open>
  \<^bold>\<open>C6: the code does not do what the claim says.\<close> The claim is that the connection is
  released on every exit path. \<open>con.close()\<close> is the statement after \<open>con.sql(...)\<close>, outside
  any \<open>try\<close>/\<open>finally\<close> or \<open>with\<close>: when the statement raises, the run ends with the
  connection opened and never closed, while the run that succeeds closes it.
\<close>

theorem connection_left_open_when_statement_raises:
  "get_and_transfer_api_data_to_s3 example_globals failing_db
      (interval_context (moscow_midnight 2025 10 20) (moscow_midnight 2025 10 21))
     = ([LogInfo (start_message ''2025-10-20'' ''2025-10-21''), DuckdbConnect,
         ConSql (sql_script example_globals ''2025-10-20'' ''2025-10-21'')], Inl http_error) \<and>
   ConClose \<notin> set (fst (get_and_transfer_api_data_to_s3 example_globals failing_db
      (interval_context (moscow_midnight 2025 10 20) (moscow_midnight 2025 10 21)))) \<and>
   ConClose \<in> set (fst (get_and_transfer_api_data_to_s3 example_globals working_db
      (interval_context (moscow_midnight 2025 10 20) (moscow_midnight 2025 10 21))))"
  by (simp add: task_statement_raises [OF get_dates_scenario connect_failing_db sql_failing_db]
      task_succeeds [OF get_dates_scenario connect_working_db sql_working_db])

text \<open>
  \<^bold>\<open>C7.\<close> Whatever exception the extraction statement raises leaves the task as it is: the
  task's result is that exception, nothing runs after the statement, and no success is
  logged.
\<close>

theorem statement_failure_propagates:
  assumes "get_dates ctx = Inr (s, e)" "connect_raises db = None"
    and "sql_raises db (sql_script g s e) = Some err"
  shows "snd (get_and_transfer_api_data_to_s3 g db ctx) = Inl err \<and>
    fst (get_and_transfer_api_data_to_s3 g db ctx) =
      [LogInfo (start_message s e), DuckdbConnect, ConSql (sql_script g s e)]"
  using assms by (simp add: task_statement_raises)

theorem statement_failure_propagates_witness:
  "snd (get_and_transfer_api_data_to_s3 example_globals failing_db
      (interval_context (moscow_midnight 2025 10 20) (moscow_midnight 2025 10 21)))
     = Inl http_error \<and>
   fst (get_and_transfer_api_data_to_s3 example_globals failing_db
      (interval_context (moscow_midnight 2025 10 20) (moscow_midnight 2025 10 21))) =
      [LogInfo (start_message ''2025-10-20'' ''2025-10-21''), DuckdbConnect,
       ConSql (sql_script example_globals ''2025-10-20'' ''2025-10-21'')]"
  using statement_failure_propagates [OF get_dates_scenario connect_failing_db sql_failing_db]
  by simp

text \<open>
  \<^bold>\<open>C9, as stated, fails.\<close> The claim is that the two secrets are read during each run of
  the task and not earlier. A run of the task reads no variable; both reads belong to the
  import of the module.
\<close>

theorem secrets_read_during_run_counterexample:
  "\<not> list_ex reads_variable (fst (get_and_transfer_api_data_to_s3 example_globals working_db
      (interval_context (moscow_midnight 2025 10 20) (moscow_midnight 2025 10 21)))) \<and>
   load_module example_variables
     = ([VariableGet ''access_key'', VariableGet ''secret_key''], Inr example_globals)"
  by (simp add: task_reads_no_variable
      load_module_def Variable_get_def example_variables_def example_globals_def)

text \<open>
  \<^bold>\<open>C9, amended.\<close> The two secrets are read from the variable store when the module is
  imported (the module-level \<open>Variable.get\<close> calls); a run of the task reads no variable
  and uses the values the import left in \<open>ACCESS_KEY\<close> and \<open>SECRET_KEY\<close>: the script it
  hands to the engine sets exactly these two as the credentials.
\<close>

theorem secrets_read_at_import:
  "\<not> list_ex reads_variable (fst (get_and_transfer_api_data_to_s3 g db ctx)) \<and>
   list_ex reads_variable (fst (load_module vars)) \<and>
   (snd (load_module vars) = Inr g \<longrightarrow>
      vars ''access_key'' = Some (ACCESS_KEY g) \<and> vars ''secret_key'' = Some (SECRET_KEY g)) \<and>
   (get_dates ctx = Inr (s, e) \<and> connect_raises db = None \<longrightarrow>
      (\<exists>q. executed_sql (fst (get_and_transfer_api_data_to_s3 g db ctx)) = [q] \<and>
           sets_credentials q (ACCESS_KEY g) (SECRET_KEY g)))"
proof -
  have "get_dates ctx = Inr (s, e) \<and> connect_raises db = None \<longrightarrow>
      (\<exists>q. executed_sql (fst (get_and_transfer_api_data_to_s3 g db ctx)) = [q] \<and>
           sets_credentials q (ACCESS_KEY g) (SECRET_KEY g))"
    by (simp add: task_connected sql_script_sets_credentials)
  moreover
  have "list_ex reads_variable (fst (load_module vars))"
    by (simp add: load_module_def split: sum.split)
  moreover have "snd (load_module vars) = Inr g \<longrightarrow>
      vars ''access_key'' = Some (ACCESS_KEY g) \<and> vars ''secret_key'' = Some (SECRET_KEY g)"
    by (auto simp add: load_module_def Variable_get_def split: option.splits)
  ultimately show ?thesis
    by (simp add: task_reads_no_variable)
qed

theorem secrets_read_at_import_witness:
  "snd (load_module example_variables) = Inr example_globals \<and>
   get_dates (interval_context (moscow_midnight 2025 10 20) (moscow_midnight 2025 10 21))
     = Inr (''2025-10-20'', ''2025-10-21'') \<and>
   connect_raises working_db = None \<and>
   \<not> list_ex reads_variable (fst (get_and_transfer_api_data_to_s3 example_globals working_db
      (interval_context (moscow_midnight 2025 10 20) (moscow_midnight 2025 10 21)))) \<and>
   list_ex reads_variable (fst (load_module example_variables)) \<and>
   example_variables ''access_key'' = Some (ACCESS_KEY example_globals) \<and>
   example_variables ''secret_key'' = Some (SECRET_KEY example_globals) \<and>
   (\<exists>q. executed_sql (fst (get_and_transfer_api_data_to_s3 example_globals working_db
      (interval_context (moscow_midnight 2025 10 20) (moscow_midnight 2025 10 21)))) = [q] \<and>
        sets_credentials q (ACCESS_KEY example_globals) (SECRET_KEY example_globals))"
proof -
  have "snd (load_module example_variables) = Inr example_globals"
    by (simp add: load_module_def Variable_get_def example_variables_def example_globals_def)
  with secrets_read_at_import [of example_globals working_db
      "interval_context (moscow_midnight 2025 10 20) (moscow_midnight 2025 10 21)"
      example_variables "''2025-10-20''" "''2025-10-21''"]
    get_dates_scenario connect_working_db
  show ?thesis by simp
qed

text \<open>
  \<^bold>\<open>C10.\<close> The destination does not depend on the end date: two windows with the same
  start date and different end dates give scripts that copy to the same path and differ
  in the URL they read, so the second run overwrites the object of the first.
\<close>

theorem destination_independent_of_end_date:
  assumes "get_dates ctx1 = Inr (s, e1)" "get_dates ctx2 = Inr (s, e2)" "e1 \<noteq> e2"
    and "connect_raises db1 = None" "connect_raises db2 = None"
  shows "\<exists>q1 q2.
    executed_sql (fst (get_and_transfer_api_data_to_s3 g db1 ctx1)) = [q1] \<and>
    executed_sql (fst (get_and_transfer_api_data_to_s3 g db2 ctx2)) = [q2] \<and>
    copies_to q1 (destination_path LAYER SOURCE s) \<and>
    copies_to q2 (destination_path LAYER SOURCE s) \<and>
    reads_csv_from q1 (source_url s e1) \<and>
    reads_csv_from q2 (source_url s e2) \<and>
    source_url s e1 \<noteq> source_url s e2 \<and> q1 \<noteq> q2"
  using assms
  by (simp add: task_connected sql_script_copies_to sql_script_reads_csv source_url_inj
      sql_script_end_date_inj)

theorem destination_independent_of_end_date_witness:
  "(''2025-10-21'' :: string) \<noteq> ''2025-10-22'' \<and>
   (\<exists>q1 q2.
    executed_sql (fst (get_and_transfer_api_data_to_s3 example_globals working_db
      (interval_context (moscow_midnight 2025 10 20) (moscow_midnight 2025 10 21)))) = [q1] \<and>
    executed_sql (fst (get_and_transfer_api_data_to_s3 example_globals working_db
      (interval_context (moscow_midnight 2025 10 20) (moscow_midnight 2025 10 22)))) = [q2] \<and>
    copies_to q1 (destination_path LAYER SOURCE ''2025-10-20'') \<and>
    copies_to q2 (destination_path LAYER SOURCE ''2025-10-20'') \<and>
    reads_csv_from q1 (source_url ''2025-10-20'' ''2025-10-21'') \<and>
    reads_csv_from q2 (source_url ''2025-10-20'' ''2025-10-22'') \<and>
    source_url ''2025-10-20'' ''2025-10-21'' \<noteq> source_url ''2025-10-20'' ''2025-10-22'' \<and>
    q1 \<noteq> q2)"
proof -
  have ne: "(''2025-10-21'' :: string) \<noteq> ''2025-10-22''" by simp
  from destination_independent_of_end_date [OF get_dates_scenario get_dates_longer_window ne
      connect_working_db connect_working_db, of example_globals] ne
  show ?thesis by simp
qed

end
